theory Spec2Isabelle
  imports Main "HOL-Library.Finite_Map"
begin

section \<open>The vcloud instance layer: identity extraction, resolver, request client, cache\<close>

text \<open>
  The development follows the Go package \<open>vcloud\<close>: \<open>instances.go\<close> (node identity
  extraction, \<open>GetInstanceInfo\<close>, \<open>isInstanceShutdown\<close>), \<open>vcloud.go\<close> (\<open>Request\<close> with its
  retry loop) and \<open>cache.go\<close> (\<open>instanceCache\<close>). Go strings are byte sequences and are
  modelled as \<open>string\<close>; errors are values of a datatype; everything the code reads from
  outside (the HTTP transport, the JSON decoder, the clock) is an explicit parameter.
\<close>

subsection \<open>Library functions of package \<open>strings\<close>\<close>

text \<open>
  \<open>strings.Index(s, sep)\<close>: the byte offset of the first occurrence of \<open>sep\<close> in \<open>s\<close>,
  or \<open>-1\<close> (here \<open>None\<close>) when there is none.
\<close>

fun Index :: "string \<Rightarrow> string \<Rightarrow> nat option" where
  "Index [] sep = (if sep = [] then Some 0 else None)"
| "Index (c # cs) sep =
     (if take (length sep) (c # cs) = sep then Some 0
      else map_option Suc (Index cs sep))"

lemma Index_bound: "Index s sep = Some m \<Longrightarrow> m + length sep \<le> length s"
proof (induction s arbitrary: m)
  case Nil
  then show ?case by (simp split: if_splits)
next
  case (Cons c cs)
  show ?case
  proof (cases "take (length sep) (c # cs) = sep")
    case True
    then have "length (take (length sep) (c # cs)) = length sep"
      by simp
    then have "length sep \<le> length (c # cs)"
      by simp
    with True Cons.prems show ?thesis by simp
  next
    case False
    with Cons.prems obtain k where k: "Index cs sep = Some k" and m: "m = Suc k"
      by auto
    from Cons.IH [OF k] m show ?thesis by simp
  qed
qed

text \<open>
  \<open>strings.Split(s, sep)\<close>: cut \<open>s\<close> at every occurrence of \<open>sep\<close>, found from the left,
  each search starting behind the previous occurrence. The program only ever splits on
  \<open>"://"\<close>; for the empty separator Go cuts after every UTF-8 sequence, which for the
  byte strings of this model is given as a cut after every byte.
\<close>

function Split :: "string \<Rightarrow> string \<Rightarrow> string list" where
  "Split s sep =
     (if sep = [] then map (\<lambda>c. [c]) s
      else (case Index s sep of
              None \<Rightarrow> [s]
            | Some m \<Rightarrow> take m s # Split (drop (m + length sep) s) sep))"
  by pat_completeness auto
termination
proof (relation "measure (\<lambda>(s, sep). length s)")
  show "wf (measure (\<lambda>(s, sep). length s))" by simp
next
  fix s sep :: string and m :: nat
  assume ne: "sep \<noteq> []" and ix: "Index s sep = Some m"
  from ne have "0 < length sep" by simp
  with Index_bound [OF ix] have "0 < length s" and "0 < m + length sep"
    by linarith+
  then have "length (drop (m + length sep) s) < length s"
    by simp
  then show "((drop (m + length sep) s, sep), (s, sep)) \<in> measure (\<lambda>(s, sep). length s)"
    by simp
qed

declare Split.simps [simp del]

text \<open>
  \<open>strings.Count(s, sep)\<close>: the number of non-overlapping occurrences of \<open>sep\<close> in
  \<open>s\<close>, counted from the left as \<open>Split\<close> finds them (\<open>Split\<close> sizes its result
  as \<open>Count(s, sep) + 1\<close>). For the empty separator, which the program never passes,
  Go counts UTF-8 sequences and the model counts bytes.
\<close>

function Count :: "string \<Rightarrow> string \<Rightarrow> nat" where
  "Count s sep =
     (if sep = [] then length s + 1
      else (case Index s sep of
              None \<Rightarrow> 0
            | Some m \<Rightarrow> 1 + Count (drop (m + length sep) s) sep))"
  by pat_completeness auto
termination
proof (relation "measure (\<lambda>(s, sep). length s)")
  show "wf (measure (\<lambda>(s, sep). length s))" by simp
next
  fix s sep :: string and m :: nat
  assume ne: "sep \<noteq> []" and ix: "Index s sep = Some m"
  from ne have "0 < length sep" by simp
  with Index_bound [OF ix] have "0 < length s" and "0 < m + length sep"
    by linarith+
  then have "length (drop (m + length sep) s) < length s"
    by simp
  then show "((drop (m + length sep) s, sep), (s, sep)) \<in> measure (\<lambda>(s, sep). length s)"
    by simp
qed

declare Count.simps [simp del]

subsection \<open>Node identity extraction (\<open>instances.go\<close>)\<close>

text \<open>The two fields of \<open>v1.Node\<close> that the provider reads: \<open>node.Name\<close> and
  \<open>node.Spec.ProviderID\<close>. Fields of structs whose names occur in several structs carry
  the Go selector path as a prefix.\<close>

record Node =
  Node_Name :: string
  Node_Spec_ProviderID :: string

definition getProviderID :: "Node \<Rightarrow> string" where
  "getProviderID node =
     (if Node_Spec_ProviderID node \<noteq> [] then
        (let parts = Split (Node_Spec_ProviderID node) ''://'' in
         if length parts = 2 then parts ! 1 else Node_Spec_ProviderID node)
      else Node_Name node)"

subsection \<open>Shutdown classification (\<open>instances.go\<close>)\<close>

text \<open>The map literal of \<open>isInstanceShutdown\<close>; a key that is missing reads as Go's zero
  value \<open>false\<close>.\<close>

definition shutdownStates :: "(string \<times> bool) list" where
  "shutdownStates =
     [(''POWERED_OFF'', True),
      (''SUSPENDED'', True),
      (''TERMINATED'', True),
      (''BACKUP'', True),
      (''BACKUP_POWEROFF'', True)]"

definition isInstanceShutdown :: "string \<Rightarrow> bool" where
  "isInstanceShutdown state =
     (case map_of shutdownStates state of None \<Rightarrow> False | Some b \<Rightarrow> b)"

subsection \<open>The request client (\<open>vcloud.go\<close>)\<close>

text \<open>
  A \<open>time.Duration\<close> is a signed 64-bit count of nanoseconds, modelled as an \<open>int\<close>
  with the bounds written out where the library saturates.
\<close>

definition Second :: int where
  "Second = 1000000000"

definition minDuration :: int where
  "minDuration = - (2 ^ 63)"

definition maxDuration :: int where
  "maxDuration = 2 ^ 63 - 1"

definition maxRetries :: nat where
  "maxRetries = 3"

definition instanceCacheTTL :: int where
  "instanceCacheTTL = 30 * Second"

definition nonExistentCacheTTL :: int where
  "nonExistentCacheTTL = 5 * Second"

text \<open>What the code reads of an \<open>http.Response\<close>: the status code and the body.\<close>

record Response =
  StatusCode :: int
  Body :: string

text \<open>
  Errors. \<open>External\<close> is an error value made by a library (\<open>net/http\<close>,
  \<open>encoding/json\<close>), carried as its message; the others are the \<open>fmt.Errorf\<close> calls of
  the package with their arguments. \<open>NilPointerDereference\<close> stands for the run-time
  panic of reading \<open>resp.StatusCode\<close> through a nil \<open>resp\<close>.
\<close>

datatype error =
    External string
  | FailedToCreateRequest error
  | FailedToGetInstance string error
  | UnexpectedStatusCode int string
  | FailedToDecodeResponse error
  | NilPointerDereference

text \<open>
  The outside world of one \<open>Request\<close> call. \<open>http.NewRequestWithContext\<close> is a pure
  function of the context, the method, the URL and the body, which are the same in every
  iteration of the retry loop: \<open>newRequestErr\<close> is its error, if it has one. The
  transport is a script: iteration \<open>i\<close> of the loop finds that \<open>httpClient.Do\<close> fails
  (connection error, timeout, cancelled or expired context) or returns a response.
\<close>

datatype attempt =
    DoFails string
  | DoReturns Response

text \<open>What a call does that an observer can see: calls of \<open>httpClient.Do\<close> (with the
  loop index) and calls of \<open>time.Sleep\<close> (with the duration).\<close>

datatype event = Do nat | Sleep int

text \<open>
  The loop \<open>for i := 0; i < maxRetries; i++\<close> of \<open>Request\<close>. \<open>resp\<close> is the variable
  declared before the loop; the \<open>err\<close> declared beside it is shadowed inside the body
  and stays nil, so the \<open>return resp, err\<close> behind the loop returns a nil error.
  The result is Go's pair \<open>(*http.Response, error)\<close>, nil being \<open>None\<close>. The URL
  that \<open>Request\<close> assembles before the loop and the two headers it sets are not part of
  the model.
\<close>

function Request_loop ::
  "string option \<Rightarrow> (nat \<Rightarrow> attempt) \<Rightarrow> nat \<Rightarrow> Response option \<Rightarrow> event list
     \<Rightarrow> (Response option \<times> error option) \<times> event list" where
  "Request_loop newRequestErr net i resp tr =
     (if i < maxRetries then
        (case newRequestErr of
           Some e \<Rightarrow> ((None, Some (FailedToCreateRequest (External e))), tr)
         | None \<Rightarrow>
             (case net i of
                DoFails e \<Rightarrow>
                  (if i < maxRetries - 1
                   then Request_loop newRequestErr net (i + 1) None
                          (tr @ [Do i, Sleep (int (i + 1) * Second)])
                   else ((None, Some (External e)), tr @ [Do i]))
              | DoReturns r \<Rightarrow>
                  (if StatusCode r \<ge> 500 \<and> i < maxRetries - 1
                   then Request_loop newRequestErr net (i + 1) (Some r)
                          (tr @ [Do i, Sleep (int (i + 1) * Second)])
                   else ((Some r, None), tr @ [Do i]))))
      else ((resp, None), tr))"
  by pat_completeness auto
termination
  by (relation "measure (\<lambda>(newRequestErr, net, i, resp, tr). maxRetries - i)") auto

declare Request_loop.simps [simp del]

definition Request ::
  "string option \<Rightarrow> (nat \<Rightarrow> attempt) \<Rightarrow> (Response option \<times> error option) \<times> event list" where
  "Request newRequestErr net = Request_loop newRequestErr net 0 None []"

text \<open>Reading a trace: the loop indices of the transport calls, and the sleeps.\<close>

fun DoCalls :: "event list \<Rightarrow> nat list" where
  "DoCalls [] = []"
| "DoCalls (Do i # tr) = i # DoCalls tr"
| "DoCalls (Sleep d # tr) = DoCalls tr"

fun Sleeps :: "event list \<Rightarrow> int list" where
  "Sleeps [] = []"
| "Sleeps (Do i # tr) = Sleeps tr"
| "Sleeps (Sleep d # tr) = d # Sleeps tr"

text \<open>
  The retry condition in the words of the specification: an attempt is retried when the
  transport call itself fails or the response status is at least 500.
\<close>

fun spec_retryable :: "attempt \<Rightarrow> bool" where
  "spec_retryable (DoFails e) = True"
| "spec_retryable (DoReturns r) = (StatusCode r \<ge> 500)"

text \<open>What \<open>Request\<close> returns for the attempt it stops at.\<close>

fun returned :: "attempt \<Rightarrow> Response option \<times> error option" where
  "returned (DoFails e) = (None, Some (External e))"
| "returned (DoReturns r) = (Some r, None)"

text \<open>A transport under a context that is cancelled from the start: every call of
  \<open>Do\<close> fails with the context's error.\<close>

definition cancelled_transport :: "nat \<Rightarrow> attempt" where
  "cancelled_transport i = DoFails ''context canceled''"

subsection \<open>The instance resolver (\<open>instances.go\<close>)\<close>

text \<open>The struct \<open>Instance\<close>, its nested anonymous structs flattened.\<close>

record Instance =
  Instance_Name :: string
  Instance_ID :: string
  Instance_UID :: string
  Instance_Type :: string
  Instance_Zone :: string
  Instance_Status :: string
  Instance_State :: string
  Instance_Owned :: bool
  Instance_Metadata_IP :: string
  Instance_Metadata_Flavor :: string
  Instance_Metadata_Cluster_ID :: string
  Instance_Metadata_Cluster_Zone :: string
  Instance_Metadata_Cluster_Tenant :: string
  Instance_Metadata_Resources_Cores :: int
  Instance_Metadata_Resources_Memory :: int
  Instance_Metadata_Resources_Volumes :: int

text \<open>\<open>v1.NodeAddress\<close> and \<open>cloudprovider.InstanceMetadata\<close>, with the fields the
  resolver fills.\<close>

record NodeAddress =
  Type :: string
  Address :: string

record InstanceMetadata =
  ProviderID :: string
  InstanceType :: string
  NodeAddresses :: "NodeAddress list"
  Zone :: string
  Region :: string
  AdditionalLabels :: "(string, string) fmap"

record InstanceInfo =
  Exists :: bool
  Shutdown :: bool
  Metadata :: "InstanceMetadata option"
  RawInstance :: "Instance option"

definition NodeInternalIP :: string where
  "NodeInternalIP = ''InternalIP''"

text \<open>The composite literal \<open>&InstanceInfo{Exists: false}\<close>: the other fields are zero.\<close>

definition notExists :: InstanceInfo where
  "notExists = \<lparr>Exists = False, Shutdown = False, Metadata = None, RawInstance = None\<rparr>"

text \<open>
  \<open>GetInstanceInfo\<close>. \<open>decode\<close> is \<open>json.NewDecoder(resp.Body).Decode(&apiResp)\<close>
  followed by the selection \<open>apiResp.Data.Instance\<close>: the library's error message or the
  decoded instance. The second component of the result is what the call did on the
  network.
\<close>

definition GetInstanceInfo ::
  "(string \<Rightarrow> string + Instance) \<Rightarrow> string option \<Rightarrow> (nat \<Rightarrow> attempt) \<Rightarrow> string
     \<Rightarrow> (error + InstanceInfo) \<times> event list" where
  "GetInstanceInfo decode newRequestErr net instanceID =
     (case Request newRequestErr net of
        ((_, Some err), tr) \<Rightarrow> (Inl (FailedToGetInstance instanceID err), tr)
      | ((None, None), tr) \<Rightarrow> (Inl NilPointerDereference, tr)
      | ((Some resp, None), tr) \<Rightarrow>
          (if StatusCode resp = 404 then Inr notExists
           else if StatusCode resp \<noteq> 200
             then Inl (UnexpectedStatusCode (StatusCode resp) (Body resp))
           else (case decode (Body resp) of
                   Inl err \<Rightarrow> Inl (FailedToDecodeResponse (External err))
                 | Inr instance \<Rightarrow>
                     (if Instance_Status instance = ''terminated'' then Inr notExists
                      else
                        (let shutdown = isInstanceShutdown (Instance_State instance);
                             metadata =
                               \<lparr>ProviderID = instanceID,
                                InstanceType = Instance_Metadata_Flavor instance,
                                NodeAddresses =
                                  [\<lparr>Type = NodeInternalIP,
                                    Address = Instance_Metadata_IP instance\<rparr>],
                                Zone = Instance_Zone instance,
                                Region = Instance_Metadata_Cluster_Tenant instance,
                                AdditionalLabels =
                                  fmupd ''k8s.io.infra.vnetwork.dev/cluster-id''
                                    (Instance_Metadata_Cluster_ID instance)
                                    (fmupd ''k8s.io.infra.vnetwork.dev/instance-type''
                                       (Instance_Metadata_Flavor instance) fmempty)\<rparr>
                         in Inr \<lparr>Exists = True, Shutdown = shutdown,
                                 Metadata = Some metadata,
                                 RawInstance = Some instance\<rparr>))),
           tr))"

subsection \<open>The instance cache (\<open>cache.go\<close>)\<close>

text \<open>
  A point in time is a count of nanoseconds on the process's clock. \<open>time.Since(t)\<close> is
  \<open>time.Now().Sub(t)\<close>, which saturates at the bounds of \<open>Duration\<close>.
\<close>

record cacheEntry =
  info :: InstanceInfo
  timestamp :: int
  ttl :: int

type_synonym cache = "(string, cacheEntry) fmap"

definition newInstanceCache :: cache where
  "newInstanceCache = fmempty"

definition Since :: "int \<Rightarrow> int \<Rightarrow> int" where
  "Since now t = max minDuration (min maxDuration (now - t))"

definition isExpired :: "int \<Rightarrow> cacheEntry \<Rightarrow> bool" where
  "isExpired now entry \<longleftrightarrow> Since now (timestamp entry) > ttl entry"

text \<open>\<open>len(c.cache)\<close>.\<close>

definition len :: "cache \<Rightarrow> nat" where
  "len c = card (fmdom' c)"

text \<open>
  \<open>cleanupOldEntriesLocked\<close> ranges over the map and deletes the entries for which
  \<open>isExpired\<close> holds. Each test reads the clock anew: \<open>now id\<close> is the reading at
  the test of the entry of \<open>id\<close>. Every entry is tested once, whatever the order of
  the iteration, and nothing is inserted meanwhile.
\<close>

definition cleanupOldEntriesLocked :: "(string \<Rightarrow> int) \<Rightarrow> cache \<Rightarrow> cache" where
  "cleanupOldEntriesLocked now c =
     fmfilter (\<lambda>id. case fmlookup c id of
                       None \<Rightarrow> False
                     | Some entry \<Rightarrow> \<not> isExpired (now id) entry) c"

definition invalidate :: "string \<Rightarrow> cache \<Rightarrow> cache" where
  "invalidate instanceID c = fmdrop instanceID c"

definition clear :: "cache \<Rightarrow> cache" where
  "clear c = fmempty"

text \<open>The clock readings of one call of \<open>get\<close>: in \<open>isExpired\<close> at the lookup, in
  \<open>time.Now()\<close> at the store, and in the sweep.\<close>

record Clock =
  at_lookup :: int
  at_store :: int
  at_sweep :: "string \<Rightarrow> int"

text \<open>
  \<open>instanceCache.get\<close>, for one caller at a time. The result is the returned pair, the
  cache after the call, and the network activity of every \<open>GetInstanceInfo\<close> call made
  (one list of events per call).
\<close>

definition get ::
  "(string \<Rightarrow> string + Instance) \<Rightarrow> string option \<Rightarrow> (nat \<Rightarrow> attempt) \<Rightarrow> Clock
     \<Rightarrow> string \<Rightarrow> cache \<Rightarrow> (error + InstanceInfo) \<times> cache \<times> event list list" where
  "get decode newRequestErr net clock instanceID c =
     (case (case fmlookup c instanceID of
              None \<Rightarrow> None
            | Some entry \<Rightarrow> if \<not> isExpired (at_lookup clock) entry then Some entry else None) of
        Some entry \<Rightarrow> (Inr (info entry), c, [])
      | None \<Rightarrow>
          (case GetInstanceInfo decode newRequestErr net instanceID of
             (Inl err, tr) \<Rightarrow> (Inl err, c, [tr])
           | (Inr info', tr) \<Rightarrow>
               (let ttl' = (if \<not> Exists info' then nonExistentCacheTTL else instanceCacheTTL);
                    c1 = fmupd instanceID
                           \<lparr>info = info', timestamp = at_store clock, ttl = ttl'\<rparr> c;
                    c2 = (if len c1 > 100 then cleanupOldEntriesLocked (at_sweep clock) c1
                          else c1)
                in (Inr info', c2, [tr]))))"

text \<open>
  Freshness in the words of the specification: an entry is fresh iff
  \<open>now - fetchedAt \<le> ttl\<close>.
\<close>

definition spec_fresh :: "int \<Rightarrow> cacheEntry \<Rightarrow> bool" where
  "spec_fresh now entry \<longleftrightarrow> now - timestamp entry \<le> ttl entry"

text \<open>The TTL that the specification assigns to a record.\<close>

definition spec_ttl :: "InstanceInfo \<Rightarrow> int" where
  "spec_ttl r = (if Exists r then 30000000000 else 5000000000)"

text \<open>Every entry of the cache carries the TTL of its record's class.\<close>

definition ttl_classes :: "cache \<Rightarrow> bool" where
  "ttl_classes c = fmpred (\<lambda>id entry. ttl entry = spec_ttl (info entry)) c"

text \<open>
  The cache as the store of \<open>get\<close> leaves it, before any sweep: the entry of
  \<open>instanceID\<close> holds the record \<open>r\<close>, the time of the store and the TTL of the
  class of \<open>r\<close>.
\<close>

definition stored :: "Clock \<Rightarrow> string \<Rightarrow> InstanceInfo \<Rightarrow> cache \<Rightarrow> cache" where
  "stored clock instanceID r c =
     fmupd instanceID \<lparr>info = r, timestamp = at_store clock, ttl = spec_ttl r\<rparr> c"

subsection \<open>Scripts and caches for the examples\<close>

text \<open>
  \<open>answers code body\<close> is a transport that answers every call with the given status
  and body. \<open>flaky\<close> refuses the connection twice and then answers 200.
  \<open>cancelled_after_first\<close> answers 503 once, after which the context is cancelled.
\<close>

definition answers :: "int \<Rightarrow> string \<Rightarrow> nat \<Rightarrow> attempt" where
  "answers code body i = DoReturns \<lparr>StatusCode = code, Body = body\<rparr>"

definition flaky :: "nat \<Rightarrow> attempt" where
  "flaky i =
     (if i < 2 then DoFails ''connection refused''
      else DoReturns \<lparr>StatusCode = 200, Body = ''{}''\<rparr>)"

definition cancelled_after_first :: "nat \<Rightarrow> attempt" where
  "cancelled_after_first i =
     (if i < 1 then DoReturns \<lparr>StatusCode = 503, Body = []\<rparr>
      else DoFails ''context canceled'')"

text \<open>A decoder that rejects every body, and one that finds a terminated instance.\<close>

definition no_decode :: "string \<Rightarrow> string + Instance" where
  "no_decode body = Inl ''unexpected end of JSON input''"

definition terminated_instance :: Instance where
  "terminated_instance =
     \<lparr>Instance_Name = ''worker-1'', Instance_ID = ''42'', Instance_UID = ''u-42'',
      Instance_Type = ''vm'', Instance_Zone = ''z1'', Instance_Status = ''terminated'',
      Instance_State = ''POWERED_OFF'', Instance_Owned = True,
      Instance_Metadata_IP = ''10.0.0.7'', Instance_Metadata_Flavor = ''small'',
      Instance_Metadata_Cluster_ID = ''c-1'', Instance_Metadata_Cluster_Zone = ''z1'',
      Instance_Metadata_Cluster_Tenant = ''t-1'', Instance_Metadata_Resources_Cores = 2,
      Instance_Metadata_Resources_Memory = 4096,
      Instance_Metadata_Resources_Volumes = 1\<rparr>"

definition decode_terminated :: "string \<Rightarrow> string + Instance" where
  "decode_terminated body = Inr terminated_instance"

text \<open>A decoder that finds a running instance, and the record the resolver makes of it
  for the identifier \<open>instance-123\<close>.\<close>

definition running_instance :: Instance where
  "running_instance =
     terminated_instance\<lparr>Instance_Status := ''active'', Instance_State := ''POWERED_ON''\<rparr>"

definition decode_running :: "string \<Rightarrow> string + Instance" where
  "decode_running body = Inr running_instance"

definition running_info :: InstanceInfo where
  "running_info =
     \<lparr>Exists = True, Shutdown = False,
      Metadata =
        Some \<lparr>ProviderID = ''instance-123'', InstanceType = ''small'',
              NodeAddresses = [\<lparr>Type = ''InternalIP'', Address = ''10.0.0.7''\<rparr>],
              Zone = ''z1'', Region = ''t-1'',
              AdditionalLabels =
                fmupd ''k8s.io.infra.vnetwork.dev/cluster-id'' ''c-1''
                  (fmupd ''k8s.io.infra.vnetwork.dev/instance-type'' ''small'' fmempty)\<rparr>,
      RawInstance = Some running_instance\<rparr>"

text \<open>
  \<open>filled n\<close> is a cache of \<open>n\<close> entries for absent instances, under the keys
  \<open>x\<close>, \<open>xx\<close>, \<open>xxx\<close>, ..., all fetched at time \<open>0\<close>. \<open>ticks t\<close> is a clock that
  reads \<open>t\<close> nanoseconds throughout a call.
\<close>

primrec filled :: "nat \<Rightarrow> cache" where
  "filled 0 = fmempty"
| "filled (Suc n) =
     fmupd (replicate (Suc n) CHR ''x'')
       \<lparr>info = notExists, timestamp = 0, ttl = nonExistentCacheTTL\<rparr> (filled n)"

definition ticks :: "int \<Rightarrow> Clock" where
  "ticks t = \<lparr>at_lookup = t, at_store = t, at_sweep = (\<lambda>id. t)\<rparr>"

section \<open>Properties\<close>

subsection \<open>Splitting\<close>

lemma Index_take: "Index s sep = Some m \<Longrightarrow> take (length sep) (drop m s) = sep"
proof (induction s arbitrary: m)
  case Nil
  then show ?case by (simp split: if_splits)
next
  case (Cons c cs)
  then show ?case by (auto split: if_splits)
qed

lemma Index_decompose:
  assumes "Index s sep = Some m"
  shows "s = take m s @ sep @ drop (m + length sep) s"
proof -
  have "take (length sep) (drop m s) @ drop (length sep) (drop m s) = drop m s"
    by (rule append_take_drop_id)
  moreover have "drop (length sep) (drop m s) = drop (m + length sep) s"
    by (simp add: add.commute)
  ultimately have "drop m s = sep @ drop (m + length sep) s"
    using Index_take [OF assms] by simp
  then have "take m s @ drop m s = take m s @ sep @ drop (m + length sep) s"
    by simp
  then show ?thesis by simp
qed

lemma Split_None: "sep \<noteq> [] \<Longrightarrow> Index s sep = None \<Longrightarrow> Split s sep = [s]"
  by (subst Split.simps) simp

lemma Split_Some:
  "sep \<noteq> [] \<Longrightarrow> Index s sep = Some m \<Longrightarrow>
     Split s sep = take m s # Split (drop (m + length sep) s) sep"
  by (subst Split.simps) simp

text \<open>The number of pieces is the number of separators plus one.\<close>

lemma length_Split: "sep \<noteq> [] \<Longrightarrow> length (Split s sep) = Count s sep + 1"
proof (induction s sep rule: Split.induct)
  case (1 s sep)
  show ?case
  proof (cases "Index s sep")
    case None
    with "1.prems" show ?thesis
      by (subst Split.simps, subst Count.simps) simp
  next
    case (Some m)
    with "1.prems" "1.IH" [OF "1.prems" Some] show ?thesis
      by (subst Split.simps, subst Count.simps) simp
  qed
qed

lemma Split_singleton:
  assumes "sep \<noteq> []" and "Split s sep = [b]"
  shows "b = s \<and> Index s sep = None"
proof (cases "Index s sep")
  case None
  with assms Split_None [of sep s] show ?thesis by simp
next
  case (Some m)
  from length_Split [OF assms(1), of "drop (m + length sep) s"]
  have "Split (drop (m + length sep) s) sep \<noteq> []" by auto
  with assms Split_Some [OF assms(1) Some] show ?thesis by simp
qed

text \<open>Two pieces put back together with the separator give the string.\<close>

lemma Split_pair:
  assumes "sep \<noteq> []" and "Split s sep = [a, b]"
  shows "s = a @ sep @ b \<and> Index b sep = None"
proof (cases "Index s sep")
  case None
  with assms Split_None [of sep s] show ?thesis by simp
next
  case (Some m)
  with assms Split_Some [OF assms(1) Some]
  have a: "a = take m s" and r: "Split (drop (m + length sep) s) sep = [b]"
    by simp_all
  from Split_singleton [OF assms(1) r]
  have b: "b = drop (m + length sep) s" "Index b sep = None"
    by simp_all
  from Index_decompose [OF Some] a b show ?thesis by simp
qed

lemma Split_two_parts:
  assumes "length (Split s ''://'') = 2"
  shows "\<exists>a. s = a @ ''://'' @ Split s ''://'' ! 1"
proof -
  from assms obtain a b where ab: "Split s ''://'' = [a, b]"
    by (auto simp: numeral_2_eq_2 length_Suc_conv)
  from Split_pair [of "''://''" s a b] ab have "s = a @ ''://'' @ b"
    by simp
  with ab show ?thesis by auto
qed

subsection \<open>Shutdown classification\<close>

text \<open>
  C6. \<open>isInstanceShutdown\<close> is true for exactly the five strings \<open>POWERED_OFF\<close>,
  \<open>SUSPENDED\<close>, \<open>TERMINATED\<close>, \<open>BACKUP\<close> and \<open>BACKUP_POWEROFF\<close>; for every other
  string, the empty one among them, it is false.
\<close>

theorem isInstanceShutdown_exact:
  "isInstanceShutdown state =
     (state = ''POWERED_OFF'' \<or> state = ''SUSPENDED'' \<or> state = ''TERMINATED'' \<or>
      state = ''BACKUP'' \<or> state = ''BACKUP_POWEROFF'')
   \<and> isInstanceShutdown ''POWERED_OFF'' \<and> isInstanceShutdown ''SUSPENDED''
   \<and> isInstanceShutdown ''TERMINATED'' \<and> isInstanceShutdown ''BACKUP''
   \<and> isInstanceShutdown ''BACKUP_POWEROFF''
   \<and> \<not> isInstanceShutdown [] \<and> \<not> isInstanceShutdown ''POWERED_ON''"
  by (simp add: isInstanceShutdown_def shutdownStates_def)

subsection \<open>Node identity extraction\<close>

text \<open>
  The claim C8 as the specification states it ends: the result is empty only when both
  the provider ID and the node name are empty. A provider ID that ends in its only
  separator refutes that: the piece behind the separator is empty and is returned.
\<close>

theorem getProviderID_empty_counterexample:
  "\<not> (getProviderID \<lparr>Node_Name = ''node-789'', Node_Spec_ProviderID = ''vcloud://''\<rparr> = []
       \<longrightarrow> Node_Spec_ProviderID \<lparr>Node_Name = ''node-789'', Node_Spec_ProviderID = ''vcloud://''\<rparr> = []
         \<and> Node_Name \<lparr>Node_Name = ''node-789'', Node_Spec_ProviderID = ''vcloud://''\<rparr> = [])"
  by (simp add: getProviderID_def Split.simps)

text \<open>
  C8, amended. \<open>getProviderID\<close> is a total function of the node (no error result).
  \<open>vcloud://instance-123\<close> gives \<open>instance-123\<close>; \<open>instance-456\<close> is returned as it is;
  an empty provider ID with node name \<open>node-789\<close> gives \<open>node-789\<close>. The result is
  empty only when both inputs are empty, or when the provider ID holds the separator
  \<open>://\<close> exactly once, at its end.
\<close>

theorem getProviderID_fallback:
  "getProviderID \<lparr>Node_Name = n, Node_Spec_ProviderID = ''vcloud://instance-123''\<rparr>
     = ''instance-123''
   \<and> getProviderID \<lparr>Node_Name = n, Node_Spec_ProviderID = ''instance-456''\<rparr>
     = ''instance-456''
   \<and> getProviderID \<lparr>Node_Name = ''node-789'', Node_Spec_ProviderID = []\<rparr> = ''node-789''
   \<and> (getProviderID node = [] \<longrightarrow>
        (Node_Spec_ProviderID node = [] \<and> Node_Name node = []) \<or>
        (Count (Node_Spec_ProviderID node) ''://'' = 1 \<and>
         (\<exists>a. Node_Spec_ProviderID node = a @ ''://'')))"
proof -
  have "(Node_Spec_ProviderID node = [] \<and> Node_Name node = []) \<or>
        (Count (Node_Spec_ProviderID node) ''://'' = 1 \<and>
         (\<exists>a. Node_Spec_ProviderID node = a @ ''://''))"
    if empty: "getProviderID node = []"
  proof (cases "Node_Spec_ProviderID node = []")
    case True
    with empty show ?thesis by (simp add: getProviderID_def)
  next
    case False
    let ?p = "Node_Spec_ProviderID node"
    from False empty have two: "length (Split ?p ''://'') = 2"
      and e: "Split ?p ''://'' ! 1 = []"
      by (auto simp: getProviderID_def Let_def split: if_splits)
    from two length_Split [of "''://''" ?p] have "Count ?p ''://'' = 1"
      by simp
    moreover from Split_two_parts [OF two] e have "\<exists>a. ?p = a @ ''://''"
      by simp
    ultimately show ?thesis by simp
  qed
  then show ?thesis
    by (simp add: getProviderID_def Split.simps)
qed

theorem getProviderID_fallback_witness:
  "getProviderID \<lparr>Node_Name = ''node-789'', Node_Spec_ProviderID = ''vcloud://''\<rparr> = []
   \<and> Count ''vcloud://'' ''://'' = 1
   \<and> getProviderID \<lparr>Node_Name = [], Node_Spec_ProviderID = []\<rparr> = []"
  using getProviderID_fallback
    [of "''n''" "\<lparr>Node_Name = ''node-789'', Node_Spec_ProviderID = ''vcloud://''\<rparr>"]
  by (simp add: getProviderID_def Split.simps)

text \<open>
  C10. A provider ID in which the separator \<open>://\<close> occurs more than once (so that
  splitting yields more than two pieces, as for \<open>vcloud://a://b\<close>) is returned as it is.
  A result that differs from a non-empty provider ID arises only when the separator
  occurs exactly once, and it is then what follows the separator.
\<close>

theorem getProviderID_repeated_separator:
  "(1 < Count (Node_Spec_ProviderID node) ''://'' \<longrightarrow>
      2 < length (Split (Node_Spec_ProviderID node) ''://'') \<and>
      getProviderID node = Node_Spec_ProviderID node)
   \<and> getProviderID \<lparr>Node_Name = n, Node_Spec_ProviderID = ''vcloud://a://b''\<rparr>
       = ''vcloud://a://b''
   \<and> (Node_Spec_ProviderID node \<noteq> [] \<and> getProviderID node \<noteq> Node_Spec_ProviderID node \<longrightarrow>
        Count (Node_Spec_ProviderID node) ''://'' = 1 \<and>
        (\<exists>a. Node_Spec_ProviderID node = a @ ''://'' @ getProviderID node))"
proof -
  let ?p = "Node_Spec_ProviderID node"
  have len: "length (Split ?p ''://'') = Count ?p ''://'' + 1"
    by (rule length_Split) simp
  have many: "2 < length (Split ?p ''://'') \<and> getProviderID node = ?p"
    if "1 < Count ?p ''://''"
  proof -
    have "Count [] ''://'' = 0"
      by (simp add: Count.simps)
    with that have "?p \<noteq> []" by auto
    with that len show ?thesis by (simp add: getProviderID_def)
  qed
  have once: "Count ?p ''://'' = 1 \<and> (\<exists>a. ?p = a @ ''://'' @ getProviderID node)"
    if "?p \<noteq> []" and "getProviderID node \<noteq> ?p"
  proof -
    from that have two: "length (Split ?p ''://'') = 2"
      and r: "getProviderID node = Split ?p ''://'' ! 1"
      by (auto simp: getProviderID_def Let_def split: if_splits)
    from two len have "Count ?p ''://'' = 1" by simp
    with Split_two_parts [OF two] r show ?thesis by simp
  qed
  have ex: "getProviderID \<lparr>Node_Name = n, Node_Spec_ProviderID = ''vcloud://a://b''\<rparr>
              = ''vcloud://a://b''"
    by (simp add: getProviderID_def Split.simps)
  from many once ex show ?thesis by blast
qed

theorem getProviderID_repeated_separator_witness:
  "1 < Count ''vcloud://a://b'' ''://''
   \<and> Split ''vcloud://a://b'' ''://'' = [''vcloud'', ''a'', ''b'']
   \<and> getProviderID \<lparr>Node_Name = ''n'', Node_Spec_ProviderID = ''vcloud://a://b''\<rparr>
       = ''vcloud://a://b''
   \<and> getProviderID \<lparr>Node_Name = ''n'', Node_Spec_ProviderID = ''vcloud://x''\<rparr> = ''x''
   \<and> Count ''vcloud://x'' ''://'' = 1"
  using getProviderID_repeated_separator
      [of "\<lparr>Node_Name = ''n'', Node_Spec_ProviderID = ''vcloud://a://b''\<rparr>" "''n''"]
    getProviderID_repeated_separator
      [of "\<lparr>Node_Name = ''n'', Node_Spec_ProviderID = ''vcloud://x''\<rparr>" "''n''"]
  by (simp add: getProviderID_def Split.simps Count.simps)

subsection \<open>The retry loop\<close>

lemma Request_loop_2:
  "Request_loop None net (Suc (Suc 0)) resp tr = (returned (net 2), tr @ [Do 2])"
  by (subst Request_loop.simps, cases "net 2")
     (simp_all add: maxRetries_def numeral_2_eq_2)

lemma Request_loop_1:
  "Request_loop None net (Suc 0) resp tr =
     (if spec_retryable (net 1)
      then (returned (net 2), tr @ [Do 1, Sleep (2 * Second), Do 2])
      else (returned (net 1), tr @ [Do 1]))"
  by (subst Request_loop.simps, cases "net 1")
     (simp_all add: maxRetries_def Request_loop_2)

text \<open>The loop, unrolled: which attempt \<open>Request\<close> stops at, and what it did before.\<close>

lemma Request_unfold:
  "Request None net =
     (if spec_retryable (net 0) then
        (if spec_retryable (net 1) then
           (returned (net 2), [Do 0, Sleep (1 * Second), Do 1, Sleep (2 * Second), Do 2])
         else (returned (net 1), [Do 0, Sleep (1 * Second), Do 1]))
      else (returned (net 0), [Do 0]))"
  unfolding Request_def
  by (subst Request_loop.simps, cases "net 0")
     (simp_all add: maxRetries_def Request_loop_1)

lemma Request_newRequestErr:
  "Request (Some e) net = ((None, Some (FailedToCreateRequest (External e))), [])"
  by (simp add: Request_def Request_loop.simps maxRetries_def)

lemma returned_not_nil: "returned a \<noteq> (None, None)"
  by (cases a) simp_all

text \<open>\<open>Request\<close> never returns a nil response together with a nil error, so
  \<open>GetInstanceInfo\<close> never dereferences nil.\<close>

lemma Request_not_nil: "fst (Request newRequestErr net) \<noteq> (None, None)"
  by (cases newRequestErr)
     (simp_all add: Request_unfold Request_newRequestErr returned_not_nil)

text \<open>
  C4. \<open>Request\<close> calls the transport at most 3 times. With a request that can be
  built, the first call is always made, and call \<open>i + 1\<close> is made exactly when call
  \<open>i\<close> was made, is not the third, and either failed or returned a status of at least
  500; a response below 500 (every 4xx among them) ends the loop. The calls are
  numbered consecutively and the sleep before retry \<open>k\<close> is \<open>k\<close> seconds. Two
  transport errors followed by a response give that response after sleeps of 1s and 2s.
\<close>

theorem Request_retry_policy:
  "length (DoCalls (snd (Request newRequestErr net))) \<le> 3
   \<and> Do 0 \<in> set (snd (Request None net))
   \<and> (Do (Suc i) \<in> set (snd (Request None net)) \<longleftrightarrow>
        Do i \<in> set (snd (Request None net)) \<and> Suc i < 3 \<and> spec_retryable (net i))
   \<and> (net i = DoReturns r \<and> StatusCode r < 500 \<longrightarrow>
        Do (Suc i) \<notin> set (snd (Request None net)))
   \<and> DoCalls (snd (Request None net)) = [0 ..< length (DoCalls (snd (Request None net)))]
   \<and> Sleeps (snd (Request None net)) =
        map (\<lambda>k. int k * 1000000000) [1 ..< length (DoCalls (snd (Request None net)))]
   \<and> (net 0 = DoFails e0 \<and> net 1 = DoFails e1 \<and> net 2 = DoReturns r' \<longrightarrow>
        Request None net =
          ((Some r', None), [Do 0, Sleep 1000000000, Do 1, Sleep 2000000000, Do 2]))"
proof -
  have up: "[0..<3] = [0, 1, Suc (Suc 0)]" "[0..<2] = [0, 1]"
    "[1..<3] = [1, Suc (Suc 0)]" "[1..<2] = [1]"
    by (simp_all add: upt_rec)
  have most: "length (DoCalls (snd (Request newRequestErr net))) \<le> 3"
    by (cases newRequestErr) (simp_all add: Request_unfold Request_newRequestErr)
  have first: "Do 0 \<in> set (snd (Request None net))"
    by (simp add: Request_unfold)
  have retry: "Do (Suc i) \<in> set (snd (Request None net)) \<longleftrightarrow>
        Do i \<in> set (snd (Request None net)) \<and> Suc i < 3 \<and> spec_retryable (net i)"
    by (cases i; cases "i - 1") (auto simp add: Request_unfold)
  have terminal: "net i = DoReturns r \<and> StatusCode r < 500 \<longrightarrow>
        Do (Suc i) \<notin> set (snd (Request None net))"
    using retry by auto
  have numbered:
    "DoCalls (snd (Request None net)) = [0 ..< length (DoCalls (snd (Request None net)))]"
    by (simp add: Request_unfold up)
  have backoff: "Sleeps (snd (Request None net)) =
        map (\<lambda>k. int k * 1000000000) [1 ..< length (DoCalls (snd (Request None net)))]"
    by (simp add: Request_unfold up Second_def)
  have third: "net 0 = DoFails e0 \<and> net 1 = DoFails e1 \<and> net 2 = DoReturns r' \<longrightarrow>
        Request None net =
          ((Some r', None), [Do 0, Sleep 1000000000, Do 1, Sleep 2000000000, Do 2])"
    by (simp add: Request_unfold Second_def)
  from most first retry terminal numbered backoff third show ?thesis
    by blast
qed

theorem Request_retry_policy_witness:
  "Request None flaky =
     ((Some \<lparr>StatusCode = 200, Body = ''{}''\<rparr>, None),
      [Do 0, Sleep 1000000000, Do 1, Sleep 2000000000, Do 2])
   \<and> Do 1 \<notin> set (snd (Request None (answers 403 [])))"
  using Request_retry_policy
      [of None flaky 0 "\<lparr>StatusCode = 200, Body = ''{}''\<rparr>"
          "''connection refused''" "''connection refused''"
          "\<lparr>StatusCode = 200, Body = ''{}''\<rparr>"]
    Request_retry_policy
      [of None "answers 403 []" 0 "\<lparr>StatusCode = 403, Body = []\<rparr>"]
  by (simp add: flaky_def answers_def)

subsection \<open>Cancellation\<close>

text \<open>
  The claim C5 as the specification states it has the retry loop stop at a cancelled
  context. Under a context that is cancelled from the start every transport call
  fails, and the loop, which never looks at the context, still makes all three calls
  and sleeps between them.
\<close>

theorem Request_cancelled_counterexample:
  "DoCalls (snd (Request None cancelled_transport)) = [0, 1, 2]
   \<and> Sleeps (snd (Request None cancelled_transport)) = [1000000000, 2000000000]"
  by (simp add: Request_unfold cancelled_transport_def Second_def)

text \<open>
  C5, amended. When the context of a fetch is cancelled before transport call \<open>c\<close> of
  its three completes (so that call \<open>c\<close> is reached and every call from \<open>c\<close> on
  fails), the retry loop is not cut short: all three calls are made, with the sleeps of
  1s and 2s between them. The fetch returns the error of the last call, and \<open>get\<close>
  returns it and leaves the cache as it was.
\<close>

theorem Request_cancelled:
  "c < 3 \<and> (\<forall>i<c. spec_retryable (net i)) \<and> (\<forall>i\<ge>c. net i = DoFails (e i)) \<longrightarrow>
     Request None net =
       ((None, Some (External (e 2))),
        [Do 0, Sleep 1000000000, Do 1, Sleep 2000000000, Do 2])
     \<and> GetInstanceInfo decode None net instanceID =
         (Inl (FailedToGetInstance instanceID (External (e 2))),
          [Do 0, Sleep 1000000000, Do 1, Sleep 2000000000, Do 2])
     \<and> ((\<forall>entry. fmlookup cache instanceID = Some entry \<longrightarrow>
            isExpired (at_lookup clock) entry) \<longrightarrow>
          get decode None net clock instanceID cache =
            (Inl (FailedToGetInstance instanceID (External (e 2))), cache,
             [[Do 0, Sleep 1000000000, Do 1, Sleep 2000000000, Do 2]]))"
proof (intro impI, elim conjE)
  assume c: "c < 3" and before: "\<forall>i<c. spec_retryable (net i)"
    and after: "\<forall>i\<ge>c. net i = DoFails (e i)"
  have retry: "spec_retryable (net i)" for i
  proof (cases "i < c")
    case True
    with before show ?thesis by simp
  next
    case False
    with after have "net i = DoFails (e i)" by simp
    then show ?thesis by simp
  qed
  from c after have last: "net 2 = DoFails (e 2)" by simp
  have req: "Request None net =
       ((None, Some (External (e 2))),
        [Do 0, Sleep 1000000000, Do 1, Sleep 2000000000, Do 2])"
    by (simp add: Request_unfold retry last Second_def)
  then have gi: "GetInstanceInfo decode None net instanceID =
         (Inl (FailedToGetInstance instanceID (External (e 2))),
          [Do 0, Sleep 1000000000, Do 1, Sleep 2000000000, Do 2])"
    by (simp add: GetInstanceInfo_def)
  have "get decode None net clock instanceID cache =
            (Inl (FailedToGetInstance instanceID (External (e 2))), cache,
             [[Do 0, Sleep 1000000000, Do 1, Sleep 2000000000, Do 2]])"
    if "\<forall>entry. fmlookup cache instanceID = Some entry \<longrightarrow>
            isExpired (at_lookup clock) entry"
    using that gi by (simp add: get_def split: option.splits)
  with req gi show "Request None net =
       ((None, Some (External (e 2))),
        [Do 0, Sleep 1000000000, Do 1, Sleep 2000000000, Do 2])
     \<and> GetInstanceInfo decode None net instanceID =
         (Inl (FailedToGetInstance instanceID (External (e 2))),
          [Do 0, Sleep 1000000000, Do 1, Sleep 2000000000, Do 2])
     \<and> ((\<forall>entry. fmlookup cache instanceID = Some entry \<longrightarrow>
            isExpired (at_lookup clock) entry) \<longrightarrow>
          get decode None net clock instanceID cache =
            (Inl (FailedToGetInstance instanceID (External (e 2))), cache,
             [[Do 0, Sleep 1000000000, Do 1, Sleep 2000000000, Do 2]]))"
    by simp
qed

theorem Request_cancelled_witness:
  "Request None cancelled_after_first =
     ((None, Some (External ''context canceled'')),
      [Do 0, Sleep 1000000000, Do 1, Sleep 2000000000, Do 2])
   \<and> get no_decode None cancelled_after_first (ticks 0) ''instance-123'' fmempty =
       (Inl (FailedToGetInstance ''instance-123'' (External ''context canceled'')), fmempty,
        [[Do 0, Sleep 1000000000, Do 1, Sleep 2000000000, Do 2]])"
  using Request_cancelled
    [of 1 cancelled_after_first "\<lambda>i. ''context canceled''" no_decode "''instance-123''"
        fmempty "ticks 0"]
  by (simp add: cancelled_after_first_def)

subsection \<open>The resolver\<close>

text \<open>
  C7. \<open>GetInstanceInfo\<close> returns a record with \<open>Exists = false\<close> and no error in
  exactly two cases: \<open>Request\<close> returned a response of status 404, or one of status 200
  whose body decodes to an instance with status \<open>terminated\<close>. Any other status than
  200 and 404 gives an error, and so does a body of a 200 response that does not decode.
\<close>

theorem GetInstanceInfo_not_exists:
  "((\<exists>r. fst (GetInstanceInfo decode newRequestErr net instanceID) = Inr r \<and> \<not> Exists r) \<longleftrightarrow>
      (\<exists>resp. fst (Request newRequestErr net) = (Some resp, None) \<and>
         (StatusCode resp = 404 \<or>
          StatusCode resp = 200 \<and>
            (\<exists>instance. decode (Body resp) = Inr instance \<and>
               Instance_Status instance = ''terminated''))))
   \<and> (fst (Request newRequestErr net) = (Some resp, None) \<and> StatusCode resp \<noteq> 404 \<and>
        StatusCode resp \<noteq> 200 \<longrightarrow>
        fst (GetInstanceInfo decode newRequestErr net instanceID) =
          Inl (UnexpectedStatusCode (StatusCode resp) (Body resp)))
   \<and> (fst (Request newRequestErr net) = (Some resp, None) \<and> StatusCode resp = 200 \<and>
        decode (Body resp) = Inl msg \<longrightarrow>
        fst (GetInstanceInfo decode newRequestErr net instanceID) =
          Inl (FailedToDecodeResponse (External msg)))"
proof (cases "Request newRequestErr net")
  case (Pair res tr)
  obtain ro eo where res: "res = (ro, eo)" by (cases res)
  show ?thesis
  proof (cases eo)
    case (Some err)
    with Pair res show ?thesis
      by (simp add: GetInstanceInfo_def split: option.splits)
  next
    case None
    show ?thesis
    proof (cases ro)
      case None
      with Pair res \<open>eo = None\<close> Request_not_nil [of newRequestErr net] show ?thesis
        by simp
    next
      case (Some resp')
      with Pair res \<open>eo = None\<close> show ?thesis
        by (auto simp: GetInstanceInfo_def Let_def notExists_def split: sum.splits)
    qed
  qed
qed

theorem GetInstanceInfo_not_exists_witness:
  "fst (GetInstanceInfo no_decode None (answers 404 []) ''instance-123'') = Inr notExists
   \<and> fst (GetInstanceInfo decode_terminated None (answers 200 ''{}'') ''instance-123'')
       = Inr notExists
   \<and> fst (GetInstanceInfo no_decode None (answers 403 ''denied'') ''instance-123'')
       = Inl (UnexpectedStatusCode 403 ''denied'')
   \<and> fst (GetInstanceInfo no_decode None (answers 200 ''{'') ''instance-123'')
       = Inl (FailedToDecodeResponse (External ''unexpected end of JSON input''))"
proof -
  have req: "fst (Request None (answers code body)) =
      (if 500 \<le> code then (Some \<lparr>StatusCode = code, Body = body\<rparr>, None)
       else (Some \<lparr>StatusCode = code, Body = body\<rparr>, None))" for code body
    by (simp add: Request_unfold answers_def)
  from GetInstanceInfo_not_exists
      [of no_decode None "answers 403 ''denied''" "''instance-123''"
          "\<lparr>StatusCode = 403, Body = ''denied''\<rparr>"]
  have forbidden: "fst (GetInstanceInfo no_decode None (answers 403 ''denied'') ''instance-123'')
       = Inl (UnexpectedStatusCode 403 ''denied'')"
    by (simp add: req)
  from GetInstanceInfo_not_exists
      [of no_decode None "answers 200 ''{''" "''instance-123''"
          "\<lparr>StatusCode = 200, Body = ''{''\<rparr>" "''unexpected end of JSON input''"]
  have garbled: "fst (GetInstanceInfo no_decode None (answers 200 ''{'') ''instance-123'')
       = Inl (FailedToDecodeResponse (External ''unexpected end of JSON input''))"
    by (simp add: req no_decode_def)
  have "fst (GetInstanceInfo no_decode None (answers 404 []) ''instance-123'') = Inr notExists"
    "fst (GetInstanceInfo decode_terminated None (answers 200 ''{}'') ''instance-123'')
       = Inr notExists"
    by (simp_all add: GetInstanceInfo_def Request_unfold answers_def decode_terminated_def
        terminated_instance_def)
  with forbidden garbled show ?thesis by simp
qed

subsection \<open>The cache\<close>

lemma ttl_values: "instanceCacheTTL = 30000000000" "nonExistentCacheTTL = 5000000000"
  by (simp_all add: instanceCacheTTL_def nonExistentCacheTTL_def Second_def)

lemma assigned_ttl: "(if \<not> Exists r then nonExistentCacheTTL else instanceCacheTTL) = spec_ttl r"
  by (simp add: spec_ttl_def ttl_values)

lemma spec_ttl_bounds: "minDuration \<le> spec_ttl r" "spec_ttl r < maxDuration"
  by (simp_all add: spec_ttl_def minDuration_def maxDuration_def)

lemma fresh_not_expired:
  "minDuration \<le> ttl entry \<Longrightarrow> spec_fresh now entry \<Longrightarrow> \<not> isExpired now entry"
  by (simp add: isExpired_def spec_fresh_def Since_def)

lemma isExpired_iff_age:
  "minDuration \<le> ttl entry \<Longrightarrow> ttl entry < maxDuration \<Longrightarrow>
     isExpired now entry \<longleftrightarrow> ttl entry < now - timestamp entry"
  by (auto simp add: isExpired_def Since_def)

lemma get_hit:
  "fmlookup c instanceID = Some entry \<Longrightarrow> \<not> isExpired (at_lookup clock) entry \<Longrightarrow>
     get decode nre net clock instanceID c = (Inr (info entry), c, [])"
  by (simp add: get_def)

lemma get_fetch:
  assumes "\<forall>entry. fmlookup c instanceID = Some entry \<longrightarrow> isExpired (at_lookup clock) entry"
  shows "get decode nre net clock instanceID c =
     (case GetInstanceInfo decode nre net instanceID of
        (Inl err, tr) \<Rightarrow> (Inl err, c, [tr])
      | (Inr r, tr) \<Rightarrow>
          (Inr r,
           if 100 < len (stored clock instanceID r c)
           then cleanupOldEntriesLocked (at_sweep clock) (stored clock instanceID r c)
           else stored clock instanceID r c,
           [tr]))"
  using assms
  by (cases "fmlookup c instanceID")
     (simp_all add: get_def Let_def assigned_ttl stored_def split: prod.splits sum.splits)

lemma fmlookup_cleanup:
  "fmlookup (cleanupOldEntriesLocked now c) k =
     (case fmlookup c k of
        None \<Rightarrow> None
      | Some entry \<Rightarrow> if isExpired (now k) entry then None else Some entry)"
  by (simp add: cleanupOldEntriesLocked_def split: option.splits)

text \<open>A call of \<open>get\<close> is a hit, a failed fetch or a fetch that is stored.\<close>

lemma get_cases:
  obtains (hit) entry where "fmlookup c instanceID = Some entry"
      "\<not> isExpired (at_lookup clock) entry"
      "get decode nre net clock instanceID c = (Inr (info entry), c, [])"
  | (failed) err tr where
      "\<forall>entry. fmlookup c instanceID = Some entry \<longrightarrow> isExpired (at_lookup clock) entry"
      "GetInstanceInfo decode nre net instanceID = (Inl err, tr)"
      "get decode nre net clock instanceID c = (Inl err, c, [tr])"
  | (fetched) r tr where
      "\<forall>entry. fmlookup c instanceID = Some entry \<longrightarrow> isExpired (at_lookup clock) entry"
      "GetInstanceInfo decode nre net instanceID = (Inr r, tr)"
      "get decode nre net clock instanceID c =
         (Inr r,
          if 100 < len (stored clock instanceID r c)
          then cleanupOldEntriesLocked (at_sweep clock) (stored clock instanceID r c)
          else stored clock instanceID r c,
          [tr])"
proof (cases "\<exists>entry. fmlookup c instanceID = Some entry \<and> \<not> isExpired (at_lookup clock) entry")
  case True
  then obtain entry where "fmlookup c instanceID = Some entry"
      "\<not> isExpired (at_lookup clock) entry" by blast
  with get_hit [OF this] hit show ?thesis by blast
next
  case False
  then have miss: "\<forall>entry. fmlookup c instanceID = Some entry \<longrightarrow> isExpired (at_lookup clock) entry"
    by blast
  obtain res tr where g: "GetInstanceInfo decode nre net instanceID = (res, tr)"
    by (cases "GetInstanceInfo decode nre net instanceID")
  show ?thesis
  proof (cases res)
    case (Inl err)
    with g get_fetch [OF miss, of decode nre net] failed [OF miss] show ?thesis by simp
  next
    case (Inr r)
    with g get_fetch [OF miss, of decode nre net] fetched [OF miss] show ?thesis by simp
  qed
qed

text \<open>Facts about the scripts and caches of the examples.\<close>

lemma Request_answers:
  "Request None (answers code body) =
     (if 500 \<le> code
      then ((Some \<lparr>StatusCode = code, Body = body\<rparr>, None),
            [Do 0, Sleep (1 * Second), Do 1, Sleep (2 * Second), Do 2])
      else ((Some \<lparr>StatusCode = code, Body = body\<rparr>, None), [Do 0]))"
  by (simp add: Request_unfold answers_def)

lemma GetInstanceInfo_404:
  "GetInstanceInfo decode None (answers 404 body) instanceID = (Inr notExists, [Do 0])"
  by (simp add: GetInstanceInfo_def Request_answers)

lemma GetInstanceInfo_403:
  "GetInstanceInfo decode None (answers 403 body) instanceID =
     (Inl (UnexpectedStatusCode 403 body), [Do 0])"
  by (simp add: GetInstanceInfo_def Request_answers)

lemma len_empty_upd: "len (fmupd k v fmempty) = 1"
  by (simp add: len_def)

lemma fmdom'_filled: "fmdom' (filled n) = (\<lambda>i. replicate i CHR ''x'') ` {1..n}"
proof (induction n)
  case 0
  then show ?case by simp
next
  case (Suc n)
  have "{1..Suc n} = insert (Suc n) {1..n}" by auto
  with Suc show ?case by simp
qed

lemma len_filled: "len (filled n) = n"
proof -
  have "inj_on (\<lambda>i. replicate i CHR ''x'') {1..n}"
    by (rule inj_onI) (metis length_replicate)
  then have "card ((\<lambda>i. replicate i CHR ''x'') ` {1..n}) = card {1..n}"
    by (rule card_image)
  then show ?thesis by (simp add: len_def fmdom'_filled)
qed

lemma fmlookup_filled:
  "fmlookup (filled n) k =
     (if k \<in> (\<lambda>i. replicate i CHR ''x'') ` {1..n}
      then Some \<lparr>info = notExists, timestamp = 0, ttl = nonExistentCacheTTL\<rparr> else None)"
proof (induction n)
  case 0
  then show ?case by simp
next
  case (Suc n)
  have "{1..Suc n} = insert (Suc n) {1..n}" by auto
  with Suc show ?case by auto
qed

lemma not_filled: "fmlookup (filled n) ''instance-123'' = None"
proof -
  have "''instance-123'' \<noteq> replicate i CHR ''x''" for i
    by (cases i) simp_all
  then show ?thesis by (auto simp: fmlookup_filled)
qed

lemma x_filled: "0 < n \<Longrightarrow> fmlookup (filled n) ''x'' =
    Some \<lparr>info = notExists, timestamp = 0, ttl = nonExistentCacheTTL\<rparr>"
proof -
  assume "0 < n"
  then have "1 \<in> {1..n}" by simp
  then have "replicate 1 CHR ''x'' \<in> (\<lambda>i. replicate i CHR ''x'') ` {1..n}"
    by (rule imageI)
  then show ?thesis by (simp add: fmlookup_filled)
qed

lemma len_store_filled:
  "len (fmupd ''instance-123'' e (filled n)) = Suc n"
proof -
  have "''instance-123'' \<notin> fmdom' (filled n)"
    using not_filled [of n] by (simp add: fmdom'_notI)
  then show ?thesis using len_filled [of n] by (simp add: len_def)
qed

lemma GetInstanceInfo_running:
  "GetInstanceInfo decode_running None (answers 200 body) ''instance-123'' =
     (Inr running_info, [Do 0])"
  by (simp add: GetInstanceInfo_def Request_answers decode_running_def running_instance_def
      terminated_instance_def running_info_def isInstanceShutdown_def shutdownStates_def
      NodeInternalIP_def)

lemma get_first_fetch:
  "get decode None (answers 404 []) (ticks t) instanceID fmempty =
     (Inr notExists,
      fmupd instanceID \<lparr>info = notExists, timestamp = t, ttl = 5000000000\<rparr> fmempty,
      [[Do 0]])"
  by (subst get_fetch)
     (simp_all add: GetInstanceInfo_404 stored_def len_empty_upd spec_ttl_def notExists_def
        ticks_def)

text \<open>
  C1. If the cache holds an entry for the identifier that is fresh (\<open>now - fetchedAt\<close>
  is at most the TTL, a \<open>Duration\<close>), \<open>get\<close> returns the record of that entry, makes no
  call of the resolver and leaves the cache as it is. Hence of two calls of \<open>get\<close> for
  the same identifier, the second within the TTL of the entry that served the first
  and with nothing between them, the second returns the record of the first and fetches
  nothing, and the first fetched at most once. (The clock does not run backwards: the
  sweep of the first call read it before the lookup of the second.)
\<close>

theorem get_fresh_hit:
  "(fmlookup c instanceID = Some entry \<and> minDuration \<le> ttl entry \<and>
      spec_fresh (at_lookup clock) entry \<longrightarrow>
      get decode nre net clock instanceID c = (Inr (info entry), c, []))
   \<and> (get decode nre net clock instanceID c = (Inr r, c1, fetches) \<and>
       (\<forall>entry. fmlookup c instanceID = Some entry \<longrightarrow> minDuration \<le> ttl entry) \<and>
       (fetches = [] \<longrightarrow>
          (\<forall>entry. fmlookup c instanceID = Some entry \<longrightarrow>
             spec_fresh (at_lookup clock2) entry)) \<and>
       (fetches \<noteq> [] \<longrightarrow>
          at_lookup clock2 - at_store clock \<le> spec_ttl r \<and>
          at_sweep clock instanceID \<le> at_lookup clock2) \<longrightarrow>
       get decode2 nre2 net2 clock2 instanceID c1 = (Inr r, c1, []) \<and>
       length fetches \<le> 1)"
proof -
  have a: "get decode nre net clock instanceID c = (Inr (info entry), c, [])"
    if "fmlookup c instanceID = Some entry" "minDuration \<le> ttl entry"
      "spec_fresh (at_lookup clock) entry"
    using that by (simp add: get_hit fresh_not_expired)
  have b: "get decode2 nre2 net2 clock2 instanceID c1 = (Inr r, c1, []) \<and> length fetches \<le> 1"
    if g: "get decode nre net clock instanceID c = (Inr r, c1, fetches)"
      and typed: "\<forall>entry. fmlookup c instanceID = Some entry \<longrightarrow> minDuration \<le> ttl entry"
      and hit2: "fetches = [] \<longrightarrow>
          (\<forall>entry. fmlookup c instanceID = Some entry \<longrightarrow>
             spec_fresh (at_lookup clock2) entry)"
      and fetch2: "fetches \<noteq> [] \<longrightarrow>
          at_lookup clock2 - at_store clock \<le> spec_ttl r \<and>
          at_sweep clock instanceID \<le> at_lookup clock2"
  proof (cases rule: get_cases [of c instanceID clock decode nre net])
    case (hit entry)
    with g have eq: "r = info entry" "c1 = c" "fetches = []" by simp_all
    from hit(1) typed hit2 eq have "minDuration \<le> ttl entry" "spec_fresh (at_lookup clock2) entry"
      by simp_all
    then have "\<not> isExpired (at_lookup clock2) entry"
      by (rule fresh_not_expired)
    with hit(1) eq show ?thesis by (simp add: get_hit)
  next
    case (failed err tr)
    with g show ?thesis by simp
  next
    case (fetched r' tr)
    let ?new = "\<lparr>info = r, timestamp = at_store clock, ttl = spec_ttl r\<rparr>"
    from fetched(3) g have eq: "r' = r" "fetches = [tr]"
      and c1: "c1 = (if 100 < len (stored clock instanceID r c)
          then cleanupOldEntriesLocked (at_sweep clock) (stored clock instanceID r c)
          else stored clock instanceID r c)"
      by simp_all
    from fetch2 eq have within: "at_lookup clock2 - at_store clock \<le> spec_ttl r"
      and sweep: "at_sweep clock instanceID \<le> at_lookup clock2"
      by simp_all
    from within have "spec_fresh (at_lookup clock2) ?new"
      by (simp add: spec_fresh_def)
    then have fresh2: "\<not> isExpired (at_lookup clock2) ?new"
      by (simp add: fresh_not_expired spec_ttl_bounds)
    from within sweep have "spec_fresh (at_sweep clock instanceID) ?new"
      by (simp add: spec_fresh_def)
    then have "\<not> isExpired (at_sweep clock instanceID) ?new"
      by (simp add: fresh_not_expired spec_ttl_bounds)
    with c1 have "fmlookup c1 instanceID = Some ?new"
      by (simp add: fmlookup_cleanup stored_def)
    from get_hit [OF this, of clock2] fresh2 eq show ?thesis by simp
  qed
  from a b show ?thesis by blast
qed

theorem get_fresh_hit_witness:
  "get no_decode None (answers 403 []) (ticks 3000000000) ''x'' (filled 1) =
     (Inr notExists, filled 1, [])
   \<and> get no_decode None (answers 404 []) (ticks 0) ''instance-123'' fmempty =
       (Inr notExists,
        fmupd ''instance-123'' \<lparr>info = notExists, timestamp = 0, ttl = 5000000000\<rparr> fmempty,
        [[Do 0]])
   \<and> get no_decode None (answers 403 []) (ticks 4000000000) ''instance-123''
        (fmupd ''instance-123'' \<lparr>info = notExists, timestamp = 0, ttl = 5000000000\<rparr> fmempty) =
       (Inr notExists,
        fmupd ''instance-123'' \<lparr>info = notExists, timestamp = 0, ttl = 5000000000\<rparr> fmempty,
        [])"
proof -
  let ?old = "\<lparr>info = notExists, timestamp = 0, ttl = nonExistentCacheTTL\<rparr>"
  let ?c1 = "fmupd ''instance-123''
      \<lparr>info = notExists, timestamp = 0, ttl = 5000000000\<rparr> fmempty"
  have x: "fmlookup (filled 1) ''x'' = Some ?old"
    by (simp add: x_filled)
  have "minDuration \<le> ttl ?old" "spec_fresh (at_lookup (ticks 3000000000)) ?old"
    by (simp_all add: ttl_values minDuration_def spec_fresh_def ticks_def)
  with x get_fresh_hit
    [where c = "filled 1" and instanceID = "''x''" and entry = ?old
       and clock = "ticks 3000000000" and decode = no_decode and nre = None
       and net = "answers 403 []"]
  have hit: "get no_decode None (answers 403 []) (ticks 3000000000) ''x'' (filled 1) =
     (Inr notExists, filled 1, [])"
    by simp
  have first: "get no_decode None (answers 404 []) (ticks 0) ''instance-123'' fmempty =
       (Inr notExists, ?c1, [[Do 0]])"
    by (rule get_first_fetch)
  have "at_lookup (ticks 4000000000) - at_store (ticks 0) \<le> spec_ttl notExists"
    "at_sweep (ticks 0) ''instance-123'' \<le> at_lookup (ticks 4000000000)"
    by (simp_all add: ticks_def spec_ttl_def notExists_def)
  with first get_fresh_hit
    [where c = fmempty and instanceID = "''instance-123''" and clock = "ticks 0"
       and decode = no_decode and nre = None and net = "answers 404 []"
       and r = notExists and ?c1.0 = ?c1 and fetches = "[[Do 0]]"
       and ?clock2.0 = "ticks 4000000000" and ?decode2.0 = no_decode and ?nre2.0 = None
       and ?net2.0 = "answers 403 []"]
  have "get no_decode None (answers 403 []) (ticks 4000000000) ''instance-123'' ?c1 =
       (Inr notExists, ?c1, [])"
    by simp
  with hit first show ?thesis by simp
qed

text \<open>The TTL classes are an invariant of the cache.\<close>

lemma ttl_classes_cleanup: "ttl_classes c \<Longrightarrow> ttl_classes (cleanupOldEntriesLocked now c)"
  by (auto simp: ttl_classes_def cleanupOldEntriesLocked_def)

lemma ttl_classes_stored: "ttl_classes c \<Longrightarrow> ttl_classes (stored clock instanceID r c)"
  by (auto simp: ttl_classes_def stored_def)

lemma ttl_classes_get:
  assumes "ttl_classes c"
  shows "ttl_classes (fst (snd (get decode nre net clock instanceID c)))"
  using assms
  by (cases rule: get_cases [of c instanceID clock decode nre net])
     (simp_all add: ttl_classes_cleanup ttl_classes_stored)

text \<open>
  C2. A call of \<open>get\<close> that fetches and succeeds changes the cache at most in the
  entry of its identifier, and the entry it writes carries the record returned, the
  time of the store, and as TTL 30 seconds when the record exists and 5 seconds when
  it does not; that entry is in the cache after the call unless the sweep of the same
  call found it expired. Hence in every cache that \<open>get\<close> has built from the empty
  one each entry has the TTL of the class of its record.
\<close>

theorem get_assigns_ttl:
  "(get decode nre net clock instanceID c = (Inr r, c1, [tr]) \<longrightarrow>
      (\<forall>k entry. fmlookup c1 k = Some entry \<and> fmlookup c k \<noteq> Some entry \<longrightarrow>
         k = instanceID \<and>
         entry = \<lparr>info = r, timestamp = at_store clock,
                  ttl = (if Exists r then 30000000000 else 5000000000)\<rparr>)
      \<and> (len (fmupd instanceID 
                 \<lparr>info = r, timestamp = at_store clock,
                  ttl = (if Exists r then 30000000000 else 5000000000)\<rparr> c) \<le> 100 \<or>
         at_sweep clock instanceID - at_store clock
           \<le> (if Exists r then 30000000000 else 5000000000) \<longrightarrow>
         fmlookup c1 instanceID =
           Some \<lparr>info = r, timestamp = at_store clock,
                 ttl = (if Exists r then 30000000000 else 5000000000)\<rparr>))
   \<and> ttl_classes newInstanceCache
   \<and> (ttl_classes c \<longrightarrow> ttl_classes (fst (snd (get decode nre net clock instanceID c))))"
proof -
  let ?new = "\<lparr>info = r, timestamp = at_store clock,
                  ttl = (if Exists r then 30000000000 else 5000000000)\<rparr>"
  have new: "?new = \<lparr>info = r, timestamp = at_store clock, ttl = spec_ttl r\<rparr>"
    by (simp add: spec_ttl_def)
  have st: "fmupd instanceID ?new c = stored clock instanceID r c"
    by (simp add: stored_def spec_ttl_def)
  have a: "(\<forall>k entry. fmlookup c1 k = Some entry \<and> fmlookup c k \<noteq> Some entry \<longrightarrow>
         k = instanceID \<and> entry = ?new)
      \<and> (len (fmupd instanceID ?new c) \<le> 100 \<or>
         at_sweep clock instanceID - at_store clock
           \<le> (if Exists r then 30000000000 else 5000000000) \<longrightarrow>
         fmlookup c1 instanceID = Some ?new)"
    if g: "get decode nre net clock instanceID c = (Inr r, c1, [tr])"
  proof (cases rule: get_cases [of c instanceID clock decode nre net])
    case (hit entry)
    with g show ?thesis by simp
  next
    case (failed err tr)
    with g show ?thesis by simp
  next
    case (fetched r' tr')
    with g have c1: "c1 = (if 100 < len (stored clock instanceID r c)
          then cleanupOldEntriesLocked (at_sweep clock) (stored clock instanceID r c)
          else stored clock instanceID r c)"
      by auto
    have only: "k = instanceID \<and> entry = ?new"
      if "fmlookup c1 k = Some entry" "fmlookup c k \<noteq> Some entry" for k entry
      using that c1 unfolding new
      by (auto simp: fmlookup_cleanup stored_def split: if_splits option.splits)
    have kept: "fmlookup c1 instanceID = Some ?new"
      if "len (fmupd instanceID ?new c) \<le> 100 \<or>
         at_sweep clock instanceID - at_store clock
           \<le> (if Exists r then 30000000000 else 5000000000)"
    proof (cases "100 < len (stored clock instanceID r c)")
      case False
      with c1 show ?thesis by (simp add: stored_def new)
    next
      case True
      with that st have "at_sweep clock instanceID - at_store clock \<le> spec_ttl r"
        by (simp add: spec_ttl_def)
      then have "spec_fresh (at_sweep clock instanceID)
          \<lparr>info = r, timestamp = at_store clock, ttl = spec_ttl r\<rparr>"
        by (simp add: spec_fresh_def)
      then have "\<not> isExpired (at_sweep clock instanceID)
          \<lparr>info = r, timestamp = at_store clock, ttl = spec_ttl r\<rparr>"
        by (simp add: fresh_not_expired spec_ttl_bounds)
      with c1 True show ?thesis
        by (simp add: fmlookup_cleanup stored_def new)
    qed
    from only kept show ?thesis by blast
  qed
  have b: "ttl_classes newInstanceCache"
    by (simp add: ttl_classes_def newInstanceCache_def)
  from a b ttl_classes_get show ?thesis by blast
qed

theorem get_assigns_ttl_witness:
  "get no_decode None (answers 404 []) (ticks 0) ''instance-123'' fmempty =
     (Inr notExists,
      fmupd ''instance-123'' \<lparr>info = notExists, timestamp = 0, ttl = 5000000000\<rparr> fmempty,
      [[Do 0]])
   \<and> fmlookup (fst (snd (get decode_running None (answers 200 ''{}'') (ticks 0)
          ''instance-123'' fmempty))) ''instance-123''
       = Some \<lparr>info = running_info, timestamp = 0, ttl = 30000000000\<rparr>"
proof -
  let ?g = "get decode_running None (answers 200 ''{}'') (ticks 0) ''instance-123'' fmempty"
  have first: "get no_decode None (answers 404 []) (ticks 0) ''instance-123'' fmempty =
     (Inr notExists,
      fmupd ''instance-123'' \<lparr>info = notExists, timestamp = 0, ttl = 5000000000\<rparr> fmempty,
      [[Do 0]])"
    by (rule get_first_fetch)
  have g: "?g = (Inr running_info, fst (snd ?g), [[Do 0]])"
    by (subst (1 2) get_fetch) (simp_all add: GetInstanceInfo_running)
  have live: "Exists running_info"
    by (simp add: running_info_def)
  have "len (fmupd ''instance-123''
          \<lparr>info = running_info, timestamp = at_store (ticks 0),
           ttl = (if Exists running_info then 30000000000 else 5000000000)\<rparr> fmempty) \<le> 100"
    by (simp add: len_empty_upd)
  with g get_assigns_ttl
    [where decode = decode_running and nre = None and net = "answers 200 ''{}''"
       and clock = "ticks 0" and instanceID = "''instance-123''" and c = fmempty
       and r = running_info and ?c1.0 = "fst (snd ?g)" and tr = "[Do 0]"]
  have "fmlookup (fst (snd ?g)) ''instance-123'' =
      Some \<lparr>info = running_info, timestamp = at_store (ticks 0),
            ttl = (if Exists running_info then 30000000000 else 5000000000)\<rparr>"
    by blast
  with live first show ?thesis by (simp add: ticks_def)
qed

text \<open>
  C3. If no fresh entry serves the call and the fetch of the resolver returns an error,
  \<open>get\<close> returns that error and the cache is the one it was called with. Whenever
  \<open>get\<close> returns an error at all, it is the error of its one fetch, and no key of the
  cache has been added, removed or replaced.
\<close>

theorem get_error_leaves_cache:
  "((\<forall>entry. fmlookup c instanceID = Some entry \<longrightarrow> isExpired (at_lookup clock) entry) \<and>
    GetInstanceInfo decode nre net instanceID = (Inl err, tr) \<longrightarrow>
      get decode nre net clock instanceID c = (Inl err, c, [tr]))
   \<and> (get decode nre net clock instanceID c = (Inl err', c1, fetches) \<longrightarrow>
        c1 = c \<and> (\<forall>k. fmlookup c1 k = fmlookup c k) \<and>
        (\<exists>tr'. fetches = [tr'] \<and>
           GetInstanceInfo decode nre net instanceID = (Inl err', tr')))"
proof -
  have a: "get decode nre net clock instanceID c = (Inl err, c, [tr])"
    if "\<forall>entry. fmlookup c instanceID = Some entry \<longrightarrow> isExpired (at_lookup clock) entry"
      and "GetInstanceInfo decode nre net instanceID = (Inl err, tr)"
    using get_fetch [OF that(1), of decode nre net] that(2) by simp
  have b: "c1 = c \<and> (\<forall>k. fmlookup c1 k = fmlookup c k) \<and>
        (\<exists>tr'. fetches = [tr'] \<and>
           GetInstanceInfo decode nre net instanceID = (Inl err', tr'))"
    if "get decode nre net clock instanceID c = (Inl err', c1, fetches)"
    using that by (cases rule: get_cases [of c instanceID clock decode nre net]) auto
  from a b show ?thesis by blast
qed

theorem get_error_leaves_cache_witness:
  "fmlookup (filled 1) ''x'' = Some \<lparr>info = notExists, timestamp = 0, ttl = 5000000000\<rparr>
   \<and> isExpired 6000000000 \<lparr>info = notExists, timestamp = 0, ttl = 5000000000\<rparr>
   \<and> get no_decode None (answers 403 ''denied'') (ticks 6000000000) ''x'' (filled 1) =
       (Inl (UnexpectedStatusCode 403 ''denied''), filled 1, [[Do 0]])"
proof -
  let ?old = "\<lparr>info = notExists, timestamp = 0, ttl = 5000000000\<rparr>"
  have x: "fmlookup (filled 1) ''x'' = Some ?old"
    by (simp add: x_filled ttl_values)
  have stale: "isExpired 6000000000 ?old"
    by (simp add: isExpired_def Since_def minDuration_def maxDuration_def)
  then have "\<forall>entry. fmlookup (filled 1) ''x'' = Some entry \<longrightarrow>
      isExpired (at_lookup (ticks 6000000000)) entry"
    by (simp add: ticks_def ttl_values)
  with GetInstanceInfo_403 [of no_decode "''denied''" "''x''"] get_error_leaves_cache
    [where c = "filled 1" and instanceID = "''x''" and clock = "ticks 6000000000"
       and decode = no_decode and nre = None and net = "answers 403 ''denied''"
       and err = "UnexpectedStatusCode 403 ''denied''" and tr = "[Do 0]"]
  have "get no_decode None (answers 403 ''denied'') (ticks 6000000000) ''x'' (filled 1) =
       (Inl (UnexpectedStatusCode 403 ''denied''), filled 1, [[Do 0]])"
    by blast
  with x stale show ?thesis by simp
qed

text \<open>
  C9. In a call of \<open>get\<close> that fetches and succeeds: when the store leaves more than
  100 entries in the map, the sweep runs and the map after the call is the map after
  the store without the entries that \<open>isExpired\<close> finds expired when it tests them,
  every other entry being as it was; for an entry whose TTL is a \<open>Duration\<close> below the
  largest one (as 5s and 30s are) that is: removed if its age exceeds its TTL, kept
  unchanged if its age is at most its TTL. When the store leaves at most 100 entries
  nothing is swept: the map after the call is the map after the store.
\<close>

theorem get_sweep:
  "get decode nre net clock instanceID c = (Inr r, c1, [tr]) \<and>
   st = fmupd instanceID
          \<lparr>info = r, timestamp = at_store clock,
           ttl = (if Exists r then 30000000000 else 5000000000)\<rparr> c \<longrightarrow>
     (100 < len st \<longrightarrow>
        (\<forall>k. fmlookup c1 k =
           (case fmlookup st k of
              None \<Rightarrow> None
            | Some entry \<Rightarrow> if isExpired (at_sweep clock k) entry then None else Some entry))
        \<and> (\<forall>k entry. fmlookup st k = Some entry \<and> minDuration \<le> ttl entry \<and>
              ttl entry < maxDuration \<longrightarrow>
              (ttl entry < at_sweep clock k - timestamp entry \<longrightarrow> fmlookup c1 k = None) \<and>
              (at_sweep clock k - timestamp entry \<le> ttl entry \<longrightarrow>
                 fmlookup c1 k = Some entry)))
     \<and> (len st \<le> 100 \<longrightarrow> c1 = st)"
proof (intro impI, elim conjE)
  assume g: "get decode nre net clock instanceID c = (Inr r, c1, [tr])"
    and st: "st = fmupd instanceID
          \<lparr>info = r, timestamp = at_store clock,
           ttl = (if Exists r then 30000000000 else 5000000000)\<rparr> c"
  from st have st': "st = stored clock instanceID r c"
    by (simp add: stored_def spec_ttl_def)
  have c1: "c1 = (if 100 < len st then cleanupOldEntriesLocked (at_sweep clock) st else st)"
    using g st' by (cases rule: get_cases [of c instanceID clock decode nre net]) auto
  have swept: "fmlookup c1 k =
           (case fmlookup st k of
              None \<Rightarrow> None
            | Some entry \<Rightarrow> if isExpired (at_sweep clock k) entry then None else Some entry)"
    if "100 < len st" for k
    using that c1 by (simp add: fmlookup_cleanup)
  have aged: "(ttl entry < at_sweep clock k - timestamp entry \<longrightarrow> fmlookup c1 k = None) \<and>
              (at_sweep clock k - timestamp entry \<le> ttl entry \<longrightarrow>
                 fmlookup c1 k = Some entry)"
    if "100 < len st" "fmlookup st k = Some entry" "minDuration \<le> ttl entry"
      "ttl entry < maxDuration" for k entry
    using swept [OF that(1), of k] that(2) isExpired_iff_age [OF that(3,4), of "at_sweep clock k"]
    by auto
  have small: "c1 = st" if "len st \<le> 100"
    using that c1 by simp
  from swept aged small
  show "(100 < len st \<longrightarrow>
        (\<forall>k. fmlookup c1 k =
           (case fmlookup st k of
              None \<Rightarrow> None
            | Some entry \<Rightarrow> if isExpired (at_sweep clock k) entry then None else Some entry))
        \<and> (\<forall>k entry. fmlookup st k = Some entry \<and> minDuration \<le> ttl entry \<and>
              ttl entry < maxDuration \<longrightarrow>
              (ttl entry < at_sweep clock k - timestamp entry \<longrightarrow> fmlookup c1 k = None) \<and>
              (at_sweep clock k - timestamp entry \<le> ttl entry \<longrightarrow>
                 fmlookup c1 k = Some entry)))
     \<and> (len st \<le> 100 \<longrightarrow> c1 = st)"
    by (intro conjI impI allI; (elim conjE)?; simp)
qed

theorem get_sweep_witness:
  "len (fmupd ''instance-123''
          \<lparr>info = notExists, timestamp = 6000000000, ttl = 5000000000\<rparr> (filled 100)) = 101
   \<and> fmlookup (filled 100) ''x''
       = Some \<lparr>info = notExists, timestamp = 0, ttl = 5000000000\<rparr>
   \<and> fmlookup (fst (snd (get no_decode None (answers 404 []) (ticks 6000000000)
         ''instance-123'' (filled 100)))) ''x'' = None
   \<and> fmlookup (fst (snd (get no_decode None (answers 404 []) (ticks 6000000000)
         ''instance-123'' (filled 100)))) ''instance-123''
       = Some \<lparr>info = notExists, timestamp = 6000000000, ttl = 5000000000\<rparr>
   \<and> fst (snd (get no_decode None (answers 404 []) (ticks 6000000000)
         ''instance-123'' (filled 2)))
       = fmupd ''instance-123''
           \<lparr>info = notExists, timestamp = 6000000000, ttl = 5000000000\<rparr> (filled 2)"
proof -
  let ?new = "\<lparr>info = notExists, timestamp = 6000000000, ttl = 5000000000\<rparr>"
  let ?old = "\<lparr>info = notExists, timestamp = 0, ttl = 5000000000\<rparr>"
  let ?g = "\<lambda>n. get no_decode None (answers 404 []) (ticks 6000000000) ''instance-123'' (filled n)"
  let ?st = "\<lambda>n. fmupd ''instance-123''
      \<lparr>info = notExists, timestamp = at_store (ticks 6000000000),
       ttl = (if Exists notExists then 30000000000 else 5000000000)\<rparr> (filled n)"
  have st: "?st n = fmupd ''instance-123'' ?new (filled n)" for n
    by (simp add: ticks_def notExists_def)
  have g: "?g n = (Inr notExists, fst (snd (?g n)), [[Do 0]])" for n
    by (subst (1 2) get_fetch) (simp_all add: not_filled GetInstanceInfo_404)
  have old: "fmlookup (filled 100) ''x'' = Some ?old"
    by (simp add: x_filled ttl_values)
  have exp: "isExpired 6000000000 ?old" "\<not> isExpired 6000000000 ?new"
    by (simp_all add: isExpired_def Since_def minDuration_def maxDuration_def)
  have big: "len (fmupd ''instance-123'' ?new (filled 100)) = 101"
    by (simp add: len_store_filled)
  then have big': "100 < len (?st 100)"
    by (simp only: st)
  have small: "len (?st 2) \<le> 100"
    by (simp add: st len_store_filled)
  from get_sweep [of no_decode None "answers 404 []" "ticks 6000000000" "''instance-123''"
      "filled 100" notExists "fst (snd (?g 100))" "[Do 0]" "?st 100"] g [of 100] big'
  have swept: "\<forall>k. fmlookup (fst (snd (?g 100))) k =
      (case fmlookup (?st 100) k of
         None \<Rightarrow> None
       | Some entry \<Rightarrow>
           if isExpired (at_sweep (ticks 6000000000) k) entry then None else Some entry)"
    by blast
  from get_sweep [of no_decode None "answers 404 []" "ticks 6000000000" "''instance-123''"
      "filled 2" notExists "fst (snd (?g 2))" "[Do 0]" "?st 2"] g [of 2] small
  have kept: "fst (snd (?g 2)) = ?st 2"
    by blast
  have now: "at_sweep (ticks 6000000000) k = 6000000000" for k
    by (simp add: ticks_def)
  from swept have "fmlookup (fst (snd (?g 100))) ''x'' = None"
    by (simp add: st now old exp)
  moreover from swept have "fmlookup (fst (snd (?g 100))) ''instance-123'' = Some ?new"
    by (simp add: st now exp)
  ultimately show ?thesis
    using old big kept by (simp add: st)
qed

end
